theory Spec2Isabelle
  imports Main "HOL-Library.Word"
begin

unbundle bit_operations_syntax

section \<open>Host data model\<close>

text \<open>
  The example extension (example/example.go) is written against the adapter package
  \<open>pgxs\<close> and the host headers \<open>postgres.h\<close> and \<open>fmgr.h\<close>. The host types are
  embedded here as the specification's data model describes them; the adapter's
  operations are embedded further down.
\<close>

text \<open>SQL types of the type mapping table; any other host type is named by its oid.\<close>

datatype sql_type = TEXT | TEXTARRAY | VOID | OtherType nat

text \<open>
  A variable-length (boxed) host structure. A text value carries its bytes. An array
  carries its header (element type), its dimension info and its elements, each of
  which may be absent (the array's null bitmap).
\<close>

datatype boxed =
    VText string
  | VArray sql_type "nat list" "string option list"

text \<open>
  \<open>C.Datum\<close>: the word-sized, type-erased encoded value. It is a packed scalar, or
  a pointer to a boxed structure. Encoded values are call-scoped and read-only, so a
  pointer is represented by the structure it points to.
\<close>

datatype datum = Scalar "64 word" | Ref boxed

text \<open>Trigger context: relation, operation kind, old and new row images when applicable.\<close>

datatype trigger_op = TgInsert | TgUpdate | TgDelete | TgTruncate

record trigger_data =
  tg_relation :: string
  tg_op :: trigger_op
  tg_old :: "datum list option"
  tg_new :: "datum list option"

text \<open>One positional argument: its declared SQL type, its encoded value, its null flag.\<close>

record call_arg =
  arg_type :: sql_type
  arg_value :: datum
  arg_isnull :: bool

text \<open>
  \<open>C.FunctionCallInfoBaseData\<close> (\<open>funcInfo\<close> in example.go, \<open>pgxs.FuncInfo\<close> in the
  adapter). The argument count is the length of \<open>args\<close>; \<open>tg_context\<close> (the field
  \<open>context\<close>) is the pointer to the trigger context, absent in a normal call.
\<close>

record funcInfo =
  args :: "call_arg list"
  tg_context :: "trigger_data option"

section \<open>Host services: server-visible logging\<close>

datatype severity = Notice | Error

text \<open>
  An emission as the host receives it: severity, the logger's prefix and formatting
  flags, and the message. The timestamp and caller location that the flags ask for are
  produced by the host clock and the call stack and are represented by the flags alone.
\<close>

record log_entry =
  le_severity :: severity
  le_prefix :: string
  le_flags :: int
  le_message :: string

text \<open>
  What an exported function can observe and change of the host outside its own return
  value: the log sink, and whether the host's error reporting has been signalled.
\<close>

record host =
  log_sink :: "log_entry list"
  error_signalled :: bool

text \<open>Flag constants of Go's standard \<open>log\<close> package (\<open>1 << iota\<close>).\<close>

definition Ldate :: int where "Ldate = 1"
definition Ltime :: int where "Ltime = 2"
definition Lmicroseconds :: int where "Lmicroseconds = 4"
definition Llongfile :: int where "Llongfile = 8"
definition Lshortfile :: int where "Lshortfile = 16"

text \<open>
  Modelled from the spec: the adapter's logging operation (package \<open>pgxs\<close>, not among
  the sources). A message is emitted at a severity with a caller-supplied prefix and
  formatting flags; it is written through to the host's log sink, and an emission at
  error severity also signals the host's error reporting.
\<close>

definition emit :: "severity \<Rightarrow> string \<Rightarrow> int \<Rightarrow> string \<Rightarrow> host \<Rightarrow> host" where
  "emit sev pfx flags msg h =
     h\<lparr>log_sink := log_sink h @
          [\<lparr>le_severity = sev, le_prefix = pfx, le_flags = flags, le_message = msg\<rparr>],
       error_signalled := (error_signalled h \<or> sev = Error)\<rparr>"

text \<open>A \<open>*log.Logger\<close> bound to a host severity.\<close>

record logger =
  lg_severity :: severity
  lg_prefix :: string
  lg_flags :: int

text \<open>
  Modelled from the spec: \<open>pgxs.NewNoticeLogger(prefix, flags)\<close>, a logger whose
  output goes to the host at the informational (notice) severity.
\<close>

definition NewNoticeLogger :: "string \<Rightarrow> int \<Rightarrow> logger" where
  "NewNoticeLogger pfx flags = \<lparr>lg_severity = Notice, lg_prefix = pfx, lg_flags = flags\<rparr>"

text \<open>\<open>(*log.Logger).Println\<close>: one call is one emission.\<close>

definition Println :: "logger \<Rightarrow> string \<Rightarrow> host \<Rightarrow> host" where
  "Println lg msg h = emit (lg_severity lg) (lg_prefix lg) (lg_flags lg) msg h"

text \<open>
  Modelled from the spec: \<open>pgxs.LogError(msg)\<close>, the error-severity logging
  operation. It returns to its caller.
\<close>

definition LogError :: "string \<Rightarrow> host \<Rightarrow> host" where
  "LogError msg h = emit Error [] 0 msg h"

text \<open>
  Modelled from the spec: what the host does with an exported function's result. The
  outcome of a call that did not return is a crash of the backend; when the error
  reporting was signalled the statement aborts on return; otherwise the statement
  goes on with the returned value.
\<close>

datatype statement_outcome = Crashed | Aborted | Completed datum

definition statement_after :: "(datum \<times> host) option \<Rightarrow> statement_outcome" where
  "statement_after r =
     (case r of
        None \<Rightarrow> Crashed
      | Some (d, h) \<Rightarrow> if error_signalled h then Aborted else Completed d)"

section \<open>The adapter's type mapping table\<close>

text \<open>
  Native (Go) values that cross the boundary: the absent value (\<open>nil\<close>), a string, a
  sequence of strings. A nil slice and an empty slice are the same sequence.
\<close>

datatype native = NNil | NString string | NStrings "string list"

datatype go_type = GoString | GoStringSlice

fun go_type_of :: "native \<Rightarrow> go_type option" where
  "go_type_of NNil = None"
| "go_type_of (NString s) = Some GoString"
| "go_type_of (NStrings ss) = Some GoStringSlice"

fun zero_value :: "go_type \<Rightarrow> native" where
  "zero_value GoString = NString []"
| "zero_value GoStringSlice = NStrings []"

text \<open>
  Modelled from the spec: the type mapping table of the adapter (package \<open>pgxs\<close>, not
  among the sources): host \<open>text[]\<close> is a sequence of native strings, host \<open>text\<close> a
  native string, host \<open>void\<close> the absence of a value.
\<close>

fun sql_type_of :: "native \<Rightarrow> sql_type" where
  "sql_type_of NNil = VOID"
| "sql_type_of (NString s) = TEXT"
| "sql_type_of (NStrings ss) = TEXTARRAY"

fun mapped_type :: "sql_type \<Rightarrow> go_type option" where
  "mapped_type TEXT = Some GoString"
| "mapped_type TEXTARRAY = Some GoStringSlice"
| "mapped_type VOID = None"
| "mapped_type (OtherType oid) = None"

text \<open>Dimension info of a one-dimensional array; the empty array has no dimension.\<close>

definition array_dims :: "nat \<Rightarrow> nat list" where
  "array_dims n = (if n = 0 then [] else [n])"

text \<open>
  Modelled from the spec: return value construction \<open>pgxs.ToDatum\<close>, the encode side
  of the table. The absent value is the datum 0 (example.go returns \<open>(datum)(0)\<close> for
  \<open>pgxs.ToDatum(nil)\<close>); a string is a boxed text; a sequence of strings is a boxed
  array with its header, dimension info and elements.
\<close>

fun ToDatum :: "native \<Rightarrow> datum" where
  "ToDatum NNil = Scalar 0"
| "ToDatum (NString s) = Ref (VText s)"
| "ToDatum (NStrings ss) = Ref (VArray TEXT (array_dims (length ss)) (map Some ss))"

text \<open>
  Modelled from the spec: the decode side of the table. A value decodes when it has
  the layout the encode side builds for its type; an unsupported host type or a
  malformed variable-length encoding (wrong element type, dimension info that does not
  agree with the elements, an absent element) does not decode.
\<close>

fun decode_boxed_array :: "sql_type \<Rightarrow> nat list \<Rightarrow> string option list \<Rightarrow> native option" where
  "decode_boxed_array et dims els =
     (case those els of
        None \<Rightarrow> None
      | Some ss \<Rightarrow> if et = TEXT \<and> dims = array_dims (length ss) then Some (NStrings ss) else None)"

fun FromDatum :: "sql_type \<Rightarrow> datum \<Rightarrow> native option" where
  "FromDatum TEXT (Ref (VText s)) = Some (NString s)"
| "FromDatum TEXTARRAY (Ref (VArray et dims els)) = decode_boxed_array et dims els"
| "FromDatum VOID (Scalar w) = (if w = 0 then Some NNil else None)"
| "FromDatum t d = None"

section \<open>The adapter's operations on the call-info\<close>

datatype error = InvalidInput | InvalidState

text \<open>The text of \<open>err.Error()\<close>.\<close>

fun error_text :: "error \<Rightarrow> string" where
  "error_text InvalidInput = ''invalid input''"
| "error_text InvalidState = ''invalid state''"

text \<open>
  Modelled from the spec: decoding one positional argument for a destination of a
  given native type. The declared type of the argument must be the one the table maps
  to the destination's type. The null flag is honoured: a null argument is absent, its
  encoded value is not read and the destination takes the zero value of its type.
\<close>

definition decode_arg :: "go_type \<Rightarrow> call_arg \<Rightarrow> native option" where
  "decode_arg t a =
     (if mapped_type (arg_type a) = Some t
      then (if arg_isnull a then Some (zero_value t) else FromDatum (arg_type a) (arg_value a))
      else None)"

text \<open>
  Modelled from the spec: scanning one argument into one destination. A destination is
  a pointer to a typed Go variable, given here by the variable's current content; the
  content fixes its type. A nil destination has no type and matches no argument.
\<close>

definition scan_one :: "call_arg \<Rightarrow> native \<Rightarrow> native option" where
  "scan_one a d = (case go_type_of d of None \<Rightarrow> None | Some t \<Rightarrow> decode_arg t a)"

text \<open>
  Modelled from the spec: the argument scan \<open>(*pgxs.FuncInfo).Scan(dests...)\<close>. It
  returns the error, if any, and the contents of the destination variables after the
  call. It fails with \<open>InvalidInput\<close> when the number or types of the destinations do
  not match the number or declared types of the arguments, or when a value does not
  decode; then no destination is written. (The specification's remaining cause,
  a trigger-only access on a call-info in trigger mode, is not an argument scan.)
\<close>

definition Scan :: "funcInfo \<Rightarrow> native list \<Rightarrow> error option \<times> native list" where
  "Scan fi dests =
     (if length dests \<noteq> length (args fi) then (Some InvalidInput, dests)
      else (case those (map2 scan_one (args fi) dests) of
              None \<Rightarrow> (Some InvalidInput, dests)
            | Some vs \<Rightarrow> (None, vs)))"

text \<open>Modelled from the spec: the trigger-mode check, a pure query over the call-info.\<close>

definition CalledAsTrigger :: "funcInfo \<Rightarrow> bool" where
  "CalledAsTrigger fi = (case tg_context fi of None \<Rightarrow> False | Some td \<Rightarrow> True)"

text \<open>
  Modelled from the spec: trigger data access. In trigger mode it returns the trigger
  context; otherwise it fails with \<open>InvalidState\<close>.
\<close>

definition TriggerData :: "funcInfo \<Rightarrow> error + trigger_data" where
  "TriggerData fi =
     (if CalledAsTrigger fi
      then (case tg_context fi of None \<Rightarrow> Inl InvalidState | Some td \<Rightarrow> Inr td)
      else Inl InvalidState)"

text \<open>The host constructs a call-info in normal mode or in trigger mode.\<close>

definition normal_call :: "call_arg list \<Rightarrow> funcInfo" where
  "normal_call as = \<lparr>args = as, tg_context = None\<rparr>"

definition trigger_call :: "call_arg list \<Rightarrow> trigger_data \<Rightarrow> funcInfo" where
  "trigger_call as td = \<lparr>args = as, tg_context = Some td\<rparr>"

section \<open>The example extension\<close>

text \<open>
  An exported function takes a pointer to the call-info (\<open>None\<close> is the nil pointer)
  and returns a datum. The host state is threaded through; the result \<open>None\<close> is a
  Go runtime panic (nil dereference), after which nothing is returned to the host.
\<close>

type_synonym exported = "funcInfo option \<Rightarrow> host \<Rightarrow> (datum \<times> host) option"

text \<open>example.go, \<open>Hello\<close>.\<close>

definition Hello :: exported where
  "Hello fcinfo h =
     (let lg = NewNoticeLogger [] (Ldate OR Ltime OR Lshortfile);
          h1 = Println lg ''hello'' h
      in Some (Scalar 0, h1))"

text \<open>example.go, \<open>convFI\<close>: the pointer is reinterpreted, not changed.\<close>

definition convFI :: "funcInfo option \<Rightarrow> funcInfo option" where
  "convFI fcinfo = fcinfo"

text \<open>Go's \<open>strings.Join(elems, sep)\<close>.\<close>

fun strings_Join :: "string list \<Rightarrow> string \<Rightarrow> string" where
  "strings_Join [] sep = []"
| "strings_Join [x] sep = x"
| "strings_Join (x # y # ys) sep = x @ sep @ strings_Join (y # ys) sep"

text \<open>
  example.go, \<open>JoinStrings\<close>. \<open>var strs []string\<close> starts as the nil slice and is
  the one destination of the scan, which reads the arguments through its receiver (a
  nil receiver panics). After a successful scan \<open>strs\<close> is read back from the
  destination; a destination that no longer holds a \<open>[]string\<close> cannot be read as one.
\<close>

definition JoinStrings :: exported where
  "JoinStrings fcinfo h =
     (case convFI fcinfo of
        None \<Rightarrow> None
      | Some fi \<Rightarrow>
          (case Scan fi [NStrings []] of
             (Some err, dests) \<Rightarrow>
               (let h1 = LogError (error_text err) h
                in Some (ToDatum (NString []), h1))
           | (None, dests) \<Rightarrow>
               (case dests of
                  [NStrings strs] \<Rightarrow>
                    (let ret = strings_Join strs []
                     in Some (ToDatum (NString ret), h))
                | _ \<Rightarrow> None)))"

section \<open>Installation metadata\<close>

text \<open>One SQL binding entry of the installation script.\<close>

record sql_binding =
  sb_name :: string
  sb_params :: "(string \<times> string) list"
  sb_returns :: string
  sb_library :: string
  sb_symbol :: string
  sb_language :: string
  sb_strict :: bool

text \<open>
  The installation script \<open>example--0.1.sql\<close> as README.md gives it: two
  \<open>CREATE OR REPLACE FUNCTION\<close> statements.
\<close>

definition example_sql :: "sql_binding list" where
  "example_sql =
     [\<lparr>sb_name = ''hello'', sb_params = [], sb_returns = ''void'',
       sb_library = ''$libdir/example'', sb_symbol = ''HelloWorld'',
       sb_language = ''C'', sb_strict = True\<rparr>,
      \<lparr>sb_name = ''join_strings'', sb_params = [(''strs'', ''text[]'')], sb_returns = ''TEXT'',
       sb_library = ''$libdir/example'', sb_symbol = ''JoinStrings'',
       sb_language = ''C'', sb_strict = True\<rparr>]"

definition declared_symbols :: "sql_binding list \<Rightarrow> string list" where
  "declared_symbols script = map sb_symbol script"

text \<open>The functions of example.go that carry an \<open>//export\<close> annotation.\<close>

definition exported_symbols :: "string list" where
  "exported_symbols = [''Hello'', ''JoinStrings'']"

section \<open>Sample inputs\<close>

text \<open>A non-null argument as the host passes it: declared type and encoded value.\<close>

definition arg_of :: "native \<Rightarrow> call_arg" where
  "arg_of v = \<lparr>arg_type = sql_type_of v, arg_value = ToDatum v, arg_isnull = False\<rparr>"

text \<open>A \<open>text[]\<close> argument with an absent element, which no \<open>[]string\<close> can hold.\<close>

definition malformed_arg :: call_arg where
  "malformed_arg =
     \<lparr>arg_type = TEXTARRAY, arg_value = Ref (VArray TEXT [2] [Some ''a'', None]),
      arg_isnull = False\<rparr>"

text \<open>A host with an empty log and no error signalled.\<close>

definition host0 :: host where
  "host0 = \<lparr>log_sink = [], error_signalled = False\<rparr>"

section \<open>Auxiliary facts\<close>

lemma those_map_Some: "those (map Some xs) = Some xs"
  by (induction xs) simp_all

lemma those_SomeD: "those els = Some ss \<Longrightarrow> els = map Some ss"
  by (induction els arbitrary: ss) (auto split: option.splits)

lemma strings_Join_empty_sep: "strings_Join xs [] = concat xs"
  by (induction xs "[] :: string" rule: strings_Join.induct) simp_all

lemma FromDatum_ToDatum: "FromDatum (sql_type_of v) (ToDatum v) = Some v"
  by (cases v) (simp_all add: those_map_Some)

lemma ToDatum_FromDatum: "FromDatum t d = Some v \<Longrightarrow> ToDatum v = d \<and> sql_type_of v = t"
  by (induction t d rule: FromDatum.induct)
     (auto split: option.splits if_splits dest: those_SomeD)

lemma Scan_single:
  "args fi = [a] \<Longrightarrow>
   Scan fi [NStrings []] =
     (case decode_arg GoStringSlice a of
        None \<Rightarrow> (Some InvalidInput, [NStrings []])
      | Some v \<Rightarrow> (None, [v]))"
  by (simp add: Scan_def scan_one_def split: option.splits)

lemma mapped_type_sql_type_of: "mapped_type (sql_type_of v) = go_type_of v"
  by (cases v) simp_all

lemma go_type_of_zero_value: "go_type_of (zero_value t) = Some t"
  by (cases t) simp_all

lemma decode_arg_type: "decode_arg t a = Some v \<Longrightarrow> go_type_of v = Some t"
proof -
  assume dec: "decode_arg t a = Some v"
  then have mt: "mapped_type (arg_type a) = Some t"
    by (simp add: decode_arg_def split: if_splits)
  show ?thesis
  proof (cases "arg_isnull a")
    case True
    with dec mt have "v = zero_value t" by (simp add: decode_arg_def)
    then show ?thesis by (simp add: go_type_of_zero_value)
  next
    case False
    with dec mt have "FromDatum (arg_type a) (arg_value a) = Some v"
      by (simp add: decode_arg_def)
    then have "sql_type_of v = arg_type a" by (simp add: ToDatum_FromDatum)
    with mt show ?thesis using mapped_type_sql_type_of [of v] by simp
  qed
qed

lemma decode_slice: "decode_arg GoStringSlice a = Some v \<Longrightarrow> \<exists>ss. v = NStrings ss"
  using decode_arg_type [of GoStringSlice a v] by (cases v) simp_all

lemma JoinStrings_ok:
  "args fi = [a] \<Longrightarrow> decode_arg GoStringSlice a = Some (NStrings ss) \<Longrightarrow>
   JoinStrings (Some fi) h = Some (ToDatum (NString (concat ss)), h)"
  by (simp add: JoinStrings_def convFI_def Scan_single strings_Join_empty_sep)

lemma JoinStrings_fail:
  "fst (Scan fi [NStrings []]) = Some e \<Longrightarrow>
   JoinStrings (Some fi) h = Some (ToDatum (NString []), LogError (error_text e) h)"
  by (cases "Scan fi [NStrings []]") (simp add: JoinStrings_def convFI_def)

lemma those_eq_None: "those xs = None \<longleftrightarrow> None \<in> set xs"
  by (induction xs) (auto split: option.splits)

lemma Scan_arity:
  "length ds \<noteq> length (args fi) \<Longrightarrow> Scan fi ds = (Some InvalidInput, ds)"
  by (simp add: Scan_def)

lemma Scan_undecodable:
  assumes "i < length ds" and "i < length (args fi)"
    and "scan_one (args fi ! i) (ds ! i) = None"
  shows "Scan fi ds = (Some InvalidInput, ds)"
proof (cases "length ds = length (args fi)")
  case False
  then show ?thesis by (rule Scan_arity)
next
  case True
  let ?rs = "map2 scan_one (args fi) ds"
  from assms True have "?rs ! i = None" and "i < length ?rs" by simp_all
  then have "None \<in> set ?rs" by (metis nth_mem)
  then have "those ?rs = None" by (simp add: those_eq_None)
  with True show ?thesis by (simp add: Scan_def)
qed

lemma Scan_populated:
  assumes "fst (Scan fi ds) = None"
  shows "length (snd (Scan fi ds)) = length ds \<and> length ds = length (args fi) \<and>
         map2 scan_one (args fi) ds = map Some (snd (Scan fi ds))"
proof -
  from assms have len: "length ds = length (args fi)"
    by (auto simp: Scan_def split: if_splits)
  with assms obtain vs where vs: "those (map2 scan_one (args fi) ds) = Some vs"
    by (auto simp: Scan_def split: option.splits)
  then have eq: "map2 scan_one (args fi) ds = map Some vs" by (rule those_SomeD)
  from vs len have res: "Scan fi ds = (None, vs)" by (simp add: Scan_def)
  from eq have "length (map2 scan_one (args fi) ds) = length (map Some vs)" by simp
  with len have "length vs = length ds" by simp
  with res eq len show ?thesis by simp
qed

lemma Scan_outcomes:
  "Scan fi ds = (Some InvalidInput, ds) \<or> fst (Scan fi ds) = None"
  by (auto simp: Scan_def split: option.splits)

lemma Scan_strs_ok:
  assumes "fst (Scan fi [NStrings []]) = None"
  shows "\<exists>a ss. args fi = [a] \<and> decode_arg GoStringSlice a = Some (NStrings ss)"
proof -
  from assms have "length (args fi) = 1" by (auto simp: Scan_def split: if_splits)
  then obtain a where a: "args fi = [a]" by (cases "args fi") simp_all
  with assms obtain v where v: "decode_arg GoStringSlice a = Some v"
    by (cases "decode_arg GoStringSlice a") (simp_all add: Scan_single)
  then obtain ss where "v = NStrings ss" using decode_slice by blast
  with a v show ?thesis by blast
qed

lemma JoinStrings_returns_text:
  "\<exists>s h'. JoinStrings (Some fi) h = Some (ToDatum (NString s), h')"
proof (cases "fst (Scan fi [NStrings []])")
  case None
  then obtain a ss where "args fi = [a]" "decode_arg GoStringSlice a = Some (NStrings ss)"
    using Scan_strs_ok by blast
  then show ?thesis using JoinStrings_ok by blast
next
  case (Some e)
  then show ?thesis using JoinStrings_fail by blast
qed

lemma emit_Error_signals: "error_signalled (emit Error pfx flags msg h)"
  by (simp add: emit_def)

lemma emit_Notice_keeps: "error_signalled (emit Notice pfx flags msg h) = error_signalled h"
  by (simp add: emit_def)

lemma emit_log: "log_sink (emit sev pfx flags msg h) = log_sink h @
   [\<lparr>le_severity = sev, le_prefix = pfx, le_flags = flags, le_message = msg\<rparr>]"
  by (simp add: emit_def)

lemma decode_arg_of: "go_type_of v = Some t \<Longrightarrow> decode_arg t (arg_of v) = Some v"
  by (simp add: decode_arg_def arg_of_def mapped_type_sql_type_of FromDatum_ToDatum)

lemma decode_malformed: "decode_arg GoStringSlice malformed_arg = None"
  by (simp add: decode_arg_def malformed_arg_def array_dims_def)

lemma LogError_eq:
  "LogError msg h = h\<lparr>log_sink := log_sink h @
      [\<lparr>le_severity = Error, le_prefix = [], le_flags = 0, le_message = msg\<rparr>],
     error_signalled := True\<rparr>"
  by (simp add: LogError_def emit_def)

lemma statement_after_LogError: "statement_after (Some (d, LogError msg h)) = Aborted"
  by (simp add: statement_after_def LogError_def emit_Error_signals)

lemma Scan_fails_InvalidInput: "fst (Scan fi ds) \<noteq> None \<Longrightarrow> fst (Scan fi ds) = Some InvalidInput"
  using Scan_outcomes [of fi ds] by auto

lemma JoinStrings_empty:
  "Scan fi [NStrings []] = (None, [NStrings []]) \<Longrightarrow>
   JoinStrings (Some fi) h = Some (ToDatum (NString []), h)"
  by (simp add: JoinStrings_def convFI_def)

section \<open>Properties of the adapter\<close>

text \<open>
  C3. An argument scan whose destinations differ in number from the actual arguments
  fails with \<open>InvalidInput\<close>, and so does a scan in which some argument does not
  decode for its destination; in both cases every destination keeps the content it
  had. A scan either fails in this way or succeeds with every destination holding its
  decoded argument: no destination is written unless all are.
\<close>

theorem Scan_all_or_nothing:
  "(length ds \<noteq> length (args fi) \<longrightarrow> Scan fi ds = (Some InvalidInput, ds))
   \<and> (i < length ds \<and> i < length (args fi) \<and> scan_one (args fi ! i) (ds ! i) = None \<longrightarrow>
        Scan fi ds = (Some InvalidInput, ds))
   \<and> (Scan fi ds = (Some InvalidInput, ds)
        \<or> (fst (Scan fi ds) = None
            \<and> length (snd (Scan fi ds)) = length ds
            \<and> map2 scan_one (args fi) ds = map Some (snd (Scan fi ds))))"
proof (intro conjI impI)
  assume "length ds \<noteq> length (args fi)"
  then show "Scan fi ds = (Some InvalidInput, ds)" by (rule Scan_arity)
next
  assume "i < length ds \<and> i < length (args fi) \<and> scan_one (args fi ! i) (ds ! i) = None"
  then show "Scan fi ds = (Some InvalidInput, ds)"
    using Scan_undecodable [of i ds fi] by blast
next
  show "Scan fi ds = (Some InvalidInput, ds)
        \<or> (fst (Scan fi ds) = None
            \<and> length (snd (Scan fi ds)) = length ds
            \<and> map2 scan_one (args fi) ds = map Some (snd (Scan fi ds)))"
    using Scan_outcomes [of fi ds] Scan_populated [of fi ds] by blast
qed

theorem Scan_all_or_nothing_witness:
  "Scan (normal_call [arg_of (NStrings [''a''])]) [NStrings [], NString []]
     = (Some InvalidInput, [NStrings [], NString []])
   \<and> Scan (normal_call [arg_of (NString ''x''), malformed_arg]) [NString [], NStrings []]
     = (Some InvalidInput, [NString [], NStrings []])
   \<and> Scan (normal_call [arg_of (NString ''x''), arg_of (NStrings [''a''])]) [NString [], NStrings []]
     = (None, [NString ''x'', NStrings [''a'']])"
proof -
  have m: "scan_one malformed_arg (NStrings []) = None"
    by (simp add: scan_one_def decode_malformed)
  have ok: "Scan (normal_call [arg_of (NString ''x''), arg_of (NStrings [''a''])]) [NString [], NStrings []]
     = (None, [NString ''x'', NStrings [''a'']])"
    by (simp add: Scan_def normal_call_def scan_one_def decode_arg_of)
  from Scan_all_or_nothing [where fi = "normal_call [arg_of (NStrings [''a''])]"
      and ds = "[NStrings [], NString []]" and i = 0]
    Scan_all_or_nothing [where fi = "normal_call [arg_of (NString ''x''), malformed_arg]"
      and ds = "[NString [], NStrings []]" and i = 1]
  show ?thesis by (simp add: normal_call_def m ok [unfolded normal_call_def])
qed

text \<open>
  C4. Trigger data access on a call-info constructed in normal mode fails with
  \<open>InvalidState\<close>; on one constructed in trigger mode it returns the trigger context
  that was supplied, with its relation, operation kind and old and new row images.
\<close>

theorem TriggerData_spec:
  "TriggerData (normal_call as) = Inl InvalidState
   \<and> TriggerData (trigger_call as td) = Inr td
   \<and> TriggerData (trigger_call as
        \<lparr>tg_relation = rel, tg_op = opk, tg_old = old, tg_new = new\<rparr>)
      = Inr \<lparr>tg_relation = rel, tg_op = opk, tg_old = old, tg_new = new\<rparr>
   \<and> (\<not> CalledAsTrigger fi \<longrightarrow> TriggerData fi = Inl InvalidState)
   \<and> (tg_context fi = Some td' \<longrightarrow> CalledAsTrigger fi \<and> TriggerData fi = Inr td')"
  by (simp add: TriggerData_def CalledAsTrigger_def normal_call_def trigger_call_def)

theorem TriggerData_spec_witness:
  "\<not> CalledAsTrigger \<lparr>args = [arg_of (NString ''x'')], tg_context = None\<rparr>
   \<and> TriggerData \<lparr>args = [arg_of (NString ''x'')], tg_context = None\<rparr> = Inl InvalidState
   \<and> TriggerData \<lparr>args = [], tg_context = Some
        \<lparr>tg_relation = ''t'', tg_op = TgUpdate, tg_old = Some [Scalar 1], tg_new = Some [Scalar 2]\<rparr>\<rparr>
      = Inr \<lparr>tg_relation = ''t'', tg_op = TgUpdate, tg_old = Some [Scalar 1], tg_new = Some [Scalar 2]\<rparr>"
  using TriggerData_spec [where fi = "\<lparr>args = [arg_of (NString ''x'')], tg_context = None\<rparr>"]
    TriggerData_spec [where fi = "\<lparr>args = [], tg_context = Some
        \<lparr>tg_relation = ''t'', tg_op = TgUpdate, tg_old = Some [Scalar 1], tg_new = Some [Scalar 2]\<rparr>\<rparr>"
      and td' = "\<lparr>tg_relation = ''t'', tg_op = TgUpdate, tg_old = Some [Scalar 1], tg_new = Some [Scalar 2]\<rparr>"]
  by (simp add: CalledAsTrigger_def)

text \<open>
  C5. Round trip of the type mapping table: decoding the encoding of a native value
  gives the value back, the empty sequence, the empty string and the absent value
  included; and an encoded value that decodes is the encoding of what it decodes to.
\<close>

theorem type_mapping_roundtrip:
  "FromDatum (sql_type_of v) (ToDatum v) = Some v
   \<and> FromDatum TEXTARRAY (ToDatum (NStrings [])) = Some (NStrings [])
   \<and> FromDatum TEXT (ToDatum (NString [])) = Some (NString [])
   \<and> FromDatum VOID (ToDatum NNil) = Some NNil
   \<and> (FromDatum t d = Some w \<longrightarrow> ToDatum w = d \<and> sql_type_of w = t)"
  using FromDatum_ToDatum [of v] FromDatum_ToDatum [of "NStrings []"]
    FromDatum_ToDatum [of "NString []"] FromDatum_ToDatum [of NNil]
    ToDatum_FromDatum [of t d w]
  by simp

theorem type_mapping_roundtrip_witness:
  "FromDatum TEXTARRAY (Ref (VArray TEXT [2] [Some ''x'', Some ''yz''])) = Some (NStrings [''x'', ''yz''])
   \<and> ToDatum (NStrings [''x'', ''yz'']) = Ref (VArray TEXT [2] [Some ''x'', Some ''yz''])
   \<and> FromDatum VOID (Scalar 0) = Some NNil \<and> ToDatum NNil = Scalar 0"
  using type_mapping_roundtrip [where t = TEXTARRAY
      and d = "Ref (VArray TEXT [2] [Some ''x'', Some ''yz''])" and w = "NStrings [''x'', ''yz'']"]
    type_mapping_roundtrip [where t = VOID and d = "Scalar 0" and w = NNil]
  by (simp add: array_dims_def)

text \<open>
  C7. Every emission at error severity signals the host's error reporting besides
  writing its entry, so that the statement aborts when the function returns; an
  emission at notice severity only writes its entry. In
  \<open>JoinStrings\<close>, when the scan fails, the function returns the encoded empty string
  and the statement aborts.
\<close>

theorem error_emission_aborts:
  "error_signalled (emit Error pfx flags msg h)
   \<and> log_sink (emit Error pfx flags msg h) = log_sink h @
        [\<lparr>le_severity = Error, le_prefix = pfx, le_flags = flags, le_message = msg\<rparr>]
   \<and> error_signalled (emit Notice pfx flags msg h) = error_signalled h
   \<and> error_signalled (LogError msg h)
   \<and> statement_after (Some (d, LogError msg h)) = Aborted
   \<and> (fst (Scan fi [NStrings []]) \<noteq> None \<longrightarrow>
        JoinStrings (Some fi) h
          = Some (ToDatum (NString []), LogError (error_text InvalidInput) h)
        \<and> statement_after (JoinStrings (Some fi) h) = Aborted)"
proof -
  have js: "JoinStrings (Some fi) h
          = Some (ToDatum (NString []), LogError (error_text InvalidInput) h)
        \<and> statement_after (JoinStrings (Some fi) h) = Aborted"
    if "fst (Scan fi [NStrings []]) \<noteq> None"
  proof -
    from that have "fst (Scan fi [NStrings []]) = Some InvalidInput"
      by (rule Scan_fails_InvalidInput)
    then have "JoinStrings (Some fi) h
          = Some (ToDatum (NString []), LogError (error_text InvalidInput) h)"
      by (rule JoinStrings_fail)
    then show ?thesis by (simp only: statement_after_LogError)
  qed
  have "error_signalled (LogError msg h)"
    by (simp add: LogError_def emit_Error_signals)
  with js show ?thesis
    by (simp add: emit_Error_signals emit_Notice_keeps emit_log statement_after_LogError)
qed

theorem error_emission_aborts_witness:
  "fst (Scan (normal_call [malformed_arg]) [NStrings []]) \<noteq> None
   \<and> JoinStrings (Some (normal_call [malformed_arg])) host0
        = Some (Ref (VText []), LogError ''invalid input'' host0)
   \<and> statement_after (JoinStrings (Some (normal_call [malformed_arg])) host0) = Aborted"
proof -
  have "args (normal_call [malformed_arg]) = [malformed_arg]"
    by (simp add: normal_call_def)
  then have f: "fst (Scan (normal_call [malformed_arg]) [NStrings []]) \<noteq> None"
    by (simp add: Scan_single decode_malformed)
  with error_emission_aborts [where fi = "normal_call [malformed_arg]" and h = host0]
  show ?thesis by simp
qed

section \<open>Properties of the example extension\<close>

text \<open>
  C1. \<open>JoinStrings\<close> on a call-info whose single argument decodes to the text array
  \<open>["a","b","c"]\<close> returns the encoded string \<open>"abc"\<close>; on one whose argument decodes to
  the empty array it returns the encoded empty string; in general it returns the
  encoded concatenation, with no separator, and emits nothing. When the argument does
  not decode it emits one message at error severity and returns the encoded empty
  string.
\<close>

theorem JoinStrings_spec:
  assumes "args fi = [a]"
  shows "(decode_arg GoStringSlice a = Some (NStrings [''a'', ''b'', ''c'']) \<longrightarrow>
            JoinStrings (Some fi) h = Some (ToDatum (NString ''abc''), h))
       \<and> (decode_arg GoStringSlice a = Some (NStrings []) \<longrightarrow>
            JoinStrings (Some fi) h = Some (ToDatum (NString []), h))
       \<and> (decode_arg GoStringSlice a = Some (NStrings ss) \<longrightarrow>
            JoinStrings (Some fi) h = Some (ToDatum (NString (concat ss)), h))
       \<and> (decode_arg GoStringSlice a = None \<longrightarrow>
            JoinStrings (Some fi) h =
              Some (ToDatum (NString []),
                    h\<lparr>log_sink := log_sink h @
                        [\<lparr>le_severity = Error, le_prefix = [], le_flags = 0,
                          le_message = error_text InvalidInput\<rparr>],
                      error_signalled := True\<rparr>))"
proof -
  have ok: "JoinStrings (Some fi) h = Some (ToDatum (NString (concat xs)), h)"
    if "decode_arg GoStringSlice a = Some (NStrings xs)" for xs
    using assms that by (rule JoinStrings_ok)
  have bad: "JoinStrings (Some fi) h =
      Some (ToDatum (NString []), LogError (error_text InvalidInput) h)"
    if "decode_arg GoStringSlice a = None"
  proof -
    from assms that have "fst (Scan fi [NStrings []]) = Some InvalidInput"
      by (simp add: Scan_single)
    then show ?thesis by (rule JoinStrings_fail)
  qed
  from ok [of "[''a'', ''b'', ''c'']"] ok [of "[]"] ok [of ss] bad
  show ?thesis by (simp add: LogError_eq)
qed

theorem JoinStrings_spec_witness:
  "JoinStrings (Some (normal_call [arg_of (NStrings [''a'', ''b'', ''c''])])) host0
     = Some (Ref (VText ''abc''), host0)
   \<and> JoinStrings (Some (normal_call [arg_of (NStrings [])])) host0
     = Some (Ref (VText []), host0)
   \<and> JoinStrings (Some (normal_call [malformed_arg])) host0
     = Some (Ref (VText []),
          \<lparr>log_sink = [\<lparr>le_severity = Error, le_prefix = [], le_flags = 0,
                         le_message = ''invalid input''\<rparr>],
           error_signalled = True\<rparr>)"
proof -
  have a1: "args (normal_call [x]) = [x]" for x by (simp add: normal_call_def)
  have d1: "decode_arg GoStringSlice (arg_of (NStrings xs)) = Some (NStrings xs)" for xs
    by (simp add: decode_arg_of)
  from JoinStrings_spec [OF a1, where a = "arg_of (NStrings [''a'', ''b'', ''c''])" and h = host0]
    JoinStrings_spec [OF a1, where a = "arg_of (NStrings [])" and h = host0]
    JoinStrings_spec [OF a1, where a = malformed_arg and h = host0]
  show ?thesis by (simp add: d1 decode_malformed host0_def)
qed


text \<open>
  C2. For every call-info pointer \<open>Hello\<close> returns the encoded absent value and emits
  exactly one entry, at notice severity; the error reporting is left as it was. Its
  result is the same for every call-info and for the nil pointer: no argument is read.
  It always returns.
\<close>

theorem Hello_spec:
  "Hello p h = Some (ToDatum NNil,
       h\<lparr>log_sink := log_sink h @
           [\<lparr>le_severity = Notice, le_prefix = [], le_flags = Ldate OR Ltime OR Lshortfile,
             le_message = ''hello''\<rparr>]\<rparr>)
   \<and> Hello p h = Hello q h
   \<and> Hello p h = Hello None h
   \<and> statement_after (Hello p h) \<noteq> Crashed"
  by (simp add: Hello_def NewNoticeLogger_def Println_def emit_def statement_after_def)


text \<open>
  C9. The value \<open>Hello\<close> returns is the datum 0 whatever the call-info pointer and
  the host state, the nil pointer included.
\<close>

theorem Hello_constant:
  "map_option fst (Hello p1 h1) = Some (Scalar 0)
   \<and> map_option fst (Hello p2 h2) = Some (Scalar 0)
   \<and> map_option fst (Hello None h1) = Some (Scalar 0)
   \<and> map_option fst (Hello p1 h1) = map_option fst (Hello p2 h2)"
  by (simp add: Hello_def)

text \<open>
  C10. For every call-info \<open>JoinStrings\<close> returns, and what it returns is an encoded
  text, never the datum of the absent value. The value returned when the scan fails is
  the value returned for a scan that yields the empty sequence: both are the encoded
  empty string.
\<close>

theorem JoinStrings_always_text:
  "(\<exists>s h'. JoinStrings (Some fi) h = Some (Ref (VText s), h'))
   \<and> map_option fst (JoinStrings (Some fi) h) \<noteq> Some (ToDatum NNil)
   \<and> map_option fst (JoinStrings (Some fi) h) \<noteq> Some (Scalar 0)
   \<and> (fst (Scan fi1 [NStrings []]) \<noteq> None \<and> Scan fi2 [NStrings []] = (None, [NStrings []]) \<longrightarrow>
        map_option fst (JoinStrings (Some fi1) h1) = Some (ToDatum (NString []))
        \<and> map_option fst (JoinStrings (Some fi2) h2) = Some (ToDatum (NString []))
        \<and> map_option fst (JoinStrings (Some fi1) h1) = map_option fst (JoinStrings (Some fi2) h2))"
proof -
  obtain s h' where r: "JoinStrings (Some fi) h = Some (ToDatum (NString s), h')"
    using JoinStrings_returns_text [of fi h] by blast
  have same: "map_option fst (JoinStrings (Some fi1) h1) = Some (ToDatum (NString []))
        \<and> map_option fst (JoinStrings (Some fi2) h2) = Some (ToDatum (NString []))"
    if "fst (Scan fi1 [NStrings []]) \<noteq> None" and "Scan fi2 [NStrings []] = (None, [NStrings []])"
  proof -
    from that(1) have "fst (Scan fi1 [NStrings []]) = Some InvalidInput"
      by (rule Scan_fails_InvalidInput)
    then have "JoinStrings (Some fi1) h1
        = Some (ToDatum (NString []), LogError (error_text InvalidInput) h1)"
      by (rule JoinStrings_fail)
    moreover from that(2) have "JoinStrings (Some fi2) h2 = Some (ToDatum (NString []), h2)"
      by (rule JoinStrings_empty)
    ultimately show ?thesis by simp
  qed
  from r have one: "(\<exists>s h'. JoinStrings (Some fi) h = Some (Ref (VText s), h'))
      \<and> map_option fst (JoinStrings (Some fi) h) \<noteq> Some (ToDatum NNil)
      \<and> map_option fst (JoinStrings (Some fi) h) \<noteq> Some (Scalar 0)"
    by simp
  from same have two: "fst (Scan fi1 [NStrings []]) \<noteq> None
        \<and> Scan fi2 [NStrings []] = (None, [NStrings []]) \<longrightarrow>
      map_option fst (JoinStrings (Some fi1) h1) = Some (ToDatum (NString []))
      \<and> map_option fst (JoinStrings (Some fi2) h2) = Some (ToDatum (NString []))
      \<and> map_option fst (JoinStrings (Some fi1) h1) = map_option fst (JoinStrings (Some fi2) h2)"
    by metis
  from one two show ?thesis by blast
qed

theorem JoinStrings_always_text_witness:
  "fst (Scan (normal_call [malformed_arg]) [NStrings []]) \<noteq> None
   \<and> Scan (normal_call [arg_of (NStrings [])]) [NStrings []] = (None, [NStrings []])
   \<and> map_option fst (JoinStrings (Some (normal_call [malformed_arg])) host0) = Some (Ref (VText []))
   \<and> map_option fst (JoinStrings (Some (normal_call [arg_of (NStrings [])])) host0)
       = Some (Ref (VText []))"
proof -
  have a: "args (normal_call [x]) = [x]" for x
    by (simp add: normal_call_def)
  have f: "fst (Scan (normal_call [malformed_arg]) [NStrings []]) \<noteq> None"
    by (simp add: Scan_single [OF a] decode_malformed)
  have e: "Scan (normal_call [arg_of (NStrings [])]) [NStrings []] = (None, [NStrings []])"
    by (simp add: Scan_single [OF a] decode_arg_of)
  from f e JoinStrings_always_text [where ?fi1.0 = "normal_call [malformed_arg]"
      and ?fi2.0 = "normal_call [arg_of (NStrings [])]" and ?h1.0 = host0 and ?h2.0 = host0]
  show ?thesis by simp
qed

section \<open>Installation metadata against the exported functions\<close>

text \<open>
  C6. The symbols the installation script declares are to be the symbols the library
  exports. The script of README.md declares \<open>HelloWorld\<close> and \<open>JoinStrings\<close>, example.go
  exports \<open>Hello\<close> and \<open>JoinStrings\<close>: the two sets differ.
\<close>

theorem script_symbols_mismatch:
  "declared_symbols example_sql = [''HelloWorld'', ''JoinStrings'']
   \<and> exported_symbols = [''Hello'', ''JoinStrings'']
   \<and> ''HelloWorld'' \<in> set (declared_symbols example_sql)
   \<and> ''HelloWorld'' \<notin> set exported_symbols
   \<and> ''Hello'' \<in> set exported_symbols
   \<and> ''Hello'' \<notin> set (declared_symbols example_sql)
   \<and> set (declared_symbols example_sql) \<noteq> set exported_symbols"
proof -
  have d: "declared_symbols example_sql = [''HelloWorld'', ''JoinStrings'']"
    by (simp add: declared_symbols_def example_sql_def)
  have e: "exported_symbols = [''Hello'', ''JoinStrings'']"
    by (simp add: exported_symbols_def)
  have m1: "''HelloWorld'' \<in> set (declared_symbols example_sql)"
    by (simp add: d)
  have n1: "''HelloWorld'' \<notin> set exported_symbols"
    by (simp add: e)
  have m2: "''Hello'' \<in> set exported_symbols"
    by (simp add: e)
  have n2: "''Hello'' \<notin> set (declared_symbols example_sql)"
    by (simp add: d)
  from m1 n1 have ne: "set (declared_symbols example_sql) \<noteq> set exported_symbols"
    by blast
  from d e m1 n1 m2 n2 ne show ?thesis by blast
qed

end
